theory Spec2Isabelle
  imports Main "HOL-Library.Word"
begin

section \<open>The operator's entry point: \<open>main.go\<close>\<close>

text \<open>
  \<open>main\<close> parses the flags, builds the controller manager, creates the request channel,
  registers the CodeServer reconciler, adds the two health checks, builds the probe ticker
  and the watcher, launches the watcher as a goroutine and starts the manager. Every call
  into \<open>controller-runtime\<close>, \<open>controllers\<close> or the Go runtime is an effect: the model
  records each one, in program order, as an event of a trace, and takes what the call
  returns as part of the environment of the run. The process ends by returning from
  \<open>main\<close>, by \<open>os.Exit\<close>, or by a panic.
\<close>

subsection \<open>Go values\<close>

text \<open>
  Go's \<open>int\<close> on the 64-bit targets and \<open>time.Duration\<close> (an \<open>int64\<close> of nanoseconds)
  are 64-bit two's complement integers: arithmetic wraps, \<open>sint\<close> reads the value.
  A Go \<open>error\<close> is \<open>None\<close> for \<open>nil\<close> and \<open>Some\<close> of its message otherwise.
\<close>

type_synonym go_int = "64 word"
type_synonym Duration = "64 word"
type_synonym go_error = "string option"

definition REQUEST_CHAN_SIZE :: nat where
  "REQUEST_CHAN_SIZE = 10"

definition Second :: Duration where
  \<comment> \<open>\<open>time.Second\<close>: 10^9 nanoseconds\<close>
  "Second = 1000000000"

record CodeServerOption =
  DomainName :: string
  VSExporterImage :: string
  ProbeInterval :: go_int
  MaxProbeRetry :: go_int
  HttpsSecretName :: string
  LxdClientSecretName :: string
  EnableUserIngress :: bool
  MaxConcurrency :: go_int

subsection \<open>Flags\<close>

text \<open>
  The command line, after the \<open>flag\<close> package has read it: each flag is either absent
  or given with a value of its type. \<open>flag.XxxVar(&v, name, dflt, usage)\<close> stores
  \<open>dflt\<close> in \<open>v\<close>, and \<open>flag.Parse\<close> overwrites it when the flag is given.
\<close>

record cmdline =
  metrics_bind_address :: "string option"
  health_probe_bind_address :: "string option"
  leader_elect :: "bool option"
  domain_name :: "string option"
  vs_default_exporter :: "string option"
  probe_interval :: "go_int option"
  max_probe_retry :: "go_int option"
  secret_name :: "string option"
  lxd_client_secret_name :: "string option"
  enable_user_ingress :: "bool option"
  max_concurrency :: "go_int option"

definition flag_Var :: "'a \<Rightarrow> 'a option \<Rightarrow> 'a" where
  "flag_Var dflt given = (case given of None \<Rightarrow> dflt | Some v \<Rightarrow> v)"

record flags =
  metricsAddr :: string
  enableLeaderElection :: bool
  probeAddr :: string
  csOption :: CodeServerOption

definition flag_Parse :: "cmdline \<Rightarrow> flags" where
  "flag_Parse c =
     \<lparr> metricsAddr = flag_Var '':8080'' (metrics_bind_address c),
       enableLeaderElection = flag_Var False (leader_elect c),
       probeAddr = flag_Var '':8081'' (health_probe_bind_address c),
       csOption =
         \<lparr> DomainName = flag_Var ''pool1.playground.osinfra.cn'' (domain_name c),
           VSExporterImage =
             flag_Var ''ghcr.io/artificial-aidan/active-exporter:latest'' (vs_default_exporter c),
           ProbeInterval = flag_Var 20 (probe_interval c),
           MaxProbeRetry = flag_Var 10 (max_probe_retry c),
           HttpsSecretName = flag_Var ''code-server-secret'' (secret_name c),
           LxdClientSecretName = flag_Var ''lxd-client-secret'' (lxd_client_secret_name c),
           EnableUserIngress = flag_Var False (enable_user_ingress c),
           MaxConcurrency = flag_Var 10 (max_concurrency c) \<rparr> \<rparr>"

subsection \<open>Objects, calls and the trace\<close>

text \<open>
  An object that \<open>main\<close> creates is named by the position, in the trace, of the event
  that creates it, so two handles are the same object exactly when they are equal.
\<close>

datatype handle =
    MgrClient                 \<comment> \<open>\<open>mgr.GetClient()\<close>\<close>
  | MgrScheme                 \<comment> \<open>\<open>mgr.GetScheme()\<close>\<close>
  | Logger "string list"      \<comment> \<open>\<open>ctrl.Log.WithName(..).WithName(..)\<close>\<close>
  | OptionPtr                 \<comment> \<open>\<open>&csOption\<close>\<close>
  | ReqChan nat               \<comment> \<open>a \<open>chan controllers.CodeServerRequest\<close>\<close>
  | TickerObj nat             \<comment> \<open>a \<open>*time.Ticker\<close>\<close>
  | TickerC nat               \<comment> \<open>the receive-only channel \<open>C\<close> of a ticker\<close>
  | Context nat               \<comment> \<open>a \<open>context.Context\<close>\<close>
  | DoneCh nat                \<comment> \<open>\<open>Done()\<close> of a context\<close>

record ctrl_Options =
  Options_Scheme :: string
  MetricsBindAddress :: string
  Port :: nat
  HealthProbeBindAddress :: string
  LeaderElection :: bool
  LeaderElectionID :: string

record CodeServerReconciler =
  Client :: handle
  Scheme :: handle
  Log :: handle
  Options :: handle
  ReqCh :: handle

text \<open>The six arguments of \<open>controllers.NewCodeServerWatcher\<close>, in order.\<close>

record watcher_args =
  w_client :: handle
  w_log :: handle
  w_scheme :: handle
  w_options :: handle
  w_reqCh :: handle
  w_probeCh :: handle

datatype event =
    Ev_NewManager ctrl_Options go_error
  | Ev_MakeChan nat nat
      \<comment> \<open>\<open>make(chan controllers.CodeServerRequest, n)\<close>: the channel and its capacity\<close>
  | Ev_SetupWithManager CodeServerReconciler go_int go_error
  | Ev_AddHealthzCheck string go_error
  | Ev_AddReadyzCheck string go_error
  | Ev_NewTicker nat Duration
  | Ev_Defer_TickerStop nat
  | Ev_NewCodeServerWatcher watcher_args
  | Ev_SetupSignalHandler nat
  | Ev_Go_Run watcher_args handle
      \<comment> \<open>\<open>go w.Run(stop)\<close>: the watcher, by the arguments it was built from, and the stop channel\<close>
  | Ev_Start handle go_error
  | Ev_TickerStop nat
  | Ev_LogInfo string
  | Ev_LogError string string
  | Ev_Exit nat
  | Ev_Panic string

datatype outcome = Returned | Exited nat | Panicked

subsection \<open>The environment of a run\<close>

text \<open>
  What the run cannot decide: the command line, and what each fallible call returns.
  A run is taken from the point where \<open>flag.Parse\<close> and \<open>ctrl.GetConfigOrDie\<close> have
  returned.
\<close>

record env =
  args :: cmdline
  NewManager_result :: go_error
  SetupWithManager_result :: go_error
  AddHealthzCheck_result :: go_error
  AddReadyzCheck_result :: go_error
  Start_result :: go_error

subsection \<open>\<open>main\<close>\<close>

text \<open>
  \<open>time.NewTicker(d)\<close> panics when \<open>d \<le> 0\<close> (signed) and otherwise returns a ticker
  of period \<open>d\<close>. The ticker is named by the event that creates it.
\<close>

definition NewTicker :: "nat \<Rightarrow> Duration \<Rightarrow> string + handle" where
  "NewTicker here d =
     (if sint d \<le> 0 then Inl ''non-positive interval for NewTicker'' else Inr (TickerObj here))"

text \<open>Lines 134 to 152: the ticker, the watcher, the signal handler, the manager.\<close>

definition start_watcher_and_manager ::
    "env \<Rightarrow> CodeServerOption \<Rightarrow> handle \<Rightarrow> event list \<Rightarrow> event list \<times> outcome" where
  "start_watcher_and_manager e opt csRequest t =
     (let d = ProbeInterval opt * Second in
      case NewTicker (length t) d of
        Inl msg \<Rightarrow> (t @ [Ev_Panic msg], Panicked)
      | Inr probeTicker \<Rightarrow>
          (let tk = length t;
               t1 = t @ [Ev_NewTicker tk d, Ev_Defer_TickerStop tk];
               codeServerWatcher =
                 \<lparr> w_client = MgrClient,
                   w_log = Logger [''controllers'', ''CodeServerWatcher''],
                   w_scheme = MgrScheme,
                   w_options = OptionPtr,
                   w_reqCh = csRequest,
                   w_probeCh = TickerC tk \<rparr>;
               t2 = t1 @ [Ev_NewCodeServerWatcher codeServerWatcher];
               stopContext = length t2;
               t3 = t2 @ [Ev_SetupSignalHandler stopContext,
                          Ev_Go_Run codeServerWatcher (DoneCh stopContext),
                          Ev_LogInfo ''starting manager'',
                          Ev_Start (Context stopContext) (Start_result e)]
           in case Start_result e of
                Some err \<Rightarrow>
                  \<comment> \<open>\<open>os.Exit\<close> does not run deferred calls\<close>
                  (t3 @ [Ev_LogError err ''problem running manager'', Ev_Exit 1], Exited 1)
              | None \<Rightarrow>
                  \<comment> \<open>\<open>main\<close> returns: the deferred \<open>probeTicker.Stop()\<close> runs\<close>
                  (t3 @ [Ev_TickerStop tk], Returned)))"

text \<open>Lines 125 to 132: the two health checks.\<close>

definition add_checks ::
    "env \<Rightarrow> CodeServerOption \<Rightarrow> handle \<Rightarrow> event list \<Rightarrow> event list \<times> outcome" where
  "add_checks e opt csRequest t =
     (let t1 = t @ [Ev_AddHealthzCheck ''healthz'' (AddHealthzCheck_result e)] in
      case AddHealthzCheck_result e of
        Some err \<Rightarrow> (t1 @ [Ev_LogError err ''unable to set up health check'', Ev_Exit 1], Exited 1)
      | None \<Rightarrow>
          (let t2 = t1 @ [Ev_AddReadyzCheck ''readyz'' (AddReadyzCheck_result e)] in
           case AddReadyzCheck_result e of
             Some err \<Rightarrow>
               (t2 @ [Ev_LogError err ''unable to set up ready check'', Ev_Exit 1], Exited 1)
           | None \<Rightarrow> start_watcher_and_manager e opt csRequest t2))"

text \<open>Lines 111 to 122: the request channel and the reconciler.\<close>

definition setup_controller ::
    "env \<Rightarrow> CodeServerOption \<Rightarrow> event list \<Rightarrow> event list \<times> outcome" where
  "setup_controller e opt t =
     (let csRequest = ReqChan (length t);
          t1 = t @ [Ev_MakeChan (length t) REQUEST_CHAN_SIZE];
          r = \<lparr> Client = MgrClient,
                Scheme = MgrScheme,
                Log = Logger [''controllers'', ''CodeServer''],
                Options = OptionPtr,
                ReqCh = csRequest \<rparr>;
          t2 = t1 @ [Ev_SetupWithManager r (MaxConcurrency opt) (SetupWithManager_result e)]
      in case SetupWithManager_result e of
           Some err \<Rightarrow> (t2 @ [Ev_LogError err ''unable to create controller'', Ev_Exit 1], Exited 1)
         | None \<Rightarrow> add_checks e opt csRequest t2)"

text \<open>Lines 56 to 109: the flags and the manager.\<close>

definition main :: "env \<Rightarrow> event list \<times> outcome" where
  "main e =
     (let fl = flag_Parse (args e);
          mgr_opts =
            \<lparr> Options_Scheme = ''scheme'',
              MetricsBindAddress = metricsAddr fl,
              Port = 9443,
              HealthProbeBindAddress = probeAddr fl,
              LeaderElection = enableLeaderElection fl,
              LeaderElectionID = ''beb50962.opensourceways.com'' \<rparr>;
          t = [Ev_NewManager mgr_opts (NewManager_result e)]
      in case NewManager_result e of
           Some err \<Rightarrow> (t @ [Ev_LogError err ''unable to start manager'', Ev_Exit 1], Exited 1)
         | None \<Rightarrow> setup_controller e (csOption fl) t)"

definition trace :: "env \<Rightarrow> event list" where
  "trace e = fst (main e)"

definition result :: "env \<Rightarrow> outcome" where
  "result e = snd (main e)"

subsection \<open>Reading a trace\<close>

text \<open>What a trace holds of each kind of event, in program order.\<close>

fun chan_made :: "event \<Rightarrow> (nat \<times> nat) option" where
  "chan_made (Ev_MakeChan c n) = Some (c, n)"
| "chan_made _ = None"

fun controller_setup :: "event \<Rightarrow> (CodeServerReconciler \<times> go_int) option" where
  "controller_setup (Ev_SetupWithManager r n _) = Some (r, n)"
| "controller_setup _ = None"

fun ticker_made :: "event \<Rightarrow> (nat \<times> Duration) option" where
  "ticker_made (Ev_NewTicker tk d) = Some (tk, d)"
| "ticker_made _ = None"

fun watcher_made :: "event \<Rightarrow> watcher_args option" where
  "watcher_made (Ev_NewCodeServerWatcher w) = Some w"
| "watcher_made _ = None"

fun signal_handler :: "event \<Rightarrow> nat option" where
  "signal_handler (Ev_SetupSignalHandler c) = Some c"
| "signal_handler _ = None"

fun watcher_run :: "event \<Rightarrow> (watcher_args \<times> handle) option" where
  "watcher_run (Ev_Go_Run w stop) = Some (w, stop)"
| "watcher_run _ = None"

fun manager_start :: "event \<Rightarrow> handle option" where
  "manager_start (Ev_Start c _) = Some c"
| "manager_start _ = None"

fun stop_deferred :: "event \<Rightarrow> nat option" where
  "stop_deferred (Ev_Defer_TickerStop tk) = Some tk"
| "stop_deferred _ = None"

fun ticker_stopped :: "event \<Rightarrow> nat option" where
  "ticker_stopped (Ev_TickerStop tk) = Some tk"
| "ticker_stopped _ = None"

text \<open>The error a call returned, for the five calls of \<open>main\<close> that return one.\<close>

fun returned_error :: "event \<Rightarrow> go_error" where
  "returned_error (Ev_NewManager _ r) = r"
| "returned_error (Ev_SetupWithManager _ _ r) = r"
| "returned_error (Ev_AddHealthzCheck _ r) = r"
| "returned_error (Ev_AddReadyzCheck _ r) = r"
| "returned_error (Ev_Start _ r) = r"
| "returned_error _ = None"

definition made_chans :: "event list \<Rightarrow> (nat \<times> nat) list" where
  "made_chans t = List.map_filter chan_made t"

definition controller_setups :: "event list \<Rightarrow> (CodeServerReconciler \<times> go_int) list" where
  "controller_setups t = List.map_filter controller_setup t"

definition made_tickers :: "event list \<Rightarrow> (nat \<times> Duration) list" where
  "made_tickers t = List.map_filter ticker_made t"

definition made_watchers :: "event list \<Rightarrow> watcher_args list" where
  "made_watchers t = List.map_filter watcher_made t"

definition signal_handlers :: "event list \<Rightarrow> nat list" where
  "signal_handlers t = List.map_filter signal_handler t"

definition watcher_runs :: "event list \<Rightarrow> (watcher_args \<times> handle) list" where
  "watcher_runs t = List.map_filter watcher_run t"

definition manager_starts :: "event list \<Rightarrow> handle list" where
  "manager_starts t = List.map_filter manager_start t"

definition deferred_stops :: "event list \<Rightarrow> nat list" where
  "deferred_stops t = List.map_filter stop_deferred t"

definition ticker_stops :: "event list \<Rightarrow> nat list" where
  "ticker_stops t = List.map_filter ticker_stopped t"


definition watcher_handles :: "watcher_args \<Rightarrow> handle list" where
  "watcher_handles w = [w_client w, w_log w, w_scheme w, w_options w, w_reqCh w, w_probeCh w]"


text \<open>\<open>Stop\<close> is a method of \<open>*time.Ticker\<close>: only a handle on the ticker itself can call it.\<close>

fun can_stop_ticker :: "handle \<Rightarrow> bool" where
  "can_stop_ticker (TickerObj _) = True"
| "can_stop_ticker _ = False"


text \<open>
  All four setup calls before the ticker returned \<open>nil\<close>: the run reaches line 135.
\<close>

definition setup_ok :: "env \<Rightarrow> bool" where
  "setup_ok e \<longleftrightarrow>
     NewManager_result e = None \<and> SetupWithManager_result e = None \<and>
     AddHealthzCheck_result e = None \<and> AddReadyzCheck_result e = None"

definition probe_interval_of :: "env \<Rightarrow> go_int" where
  "probe_interval_of e = ProbeInterval (csOption (flag_Parse (args e)))"

text \<open>
  The events of a run in which every setup call returns \<open>nil\<close> and the ticker is built:
  lines 87 to 132, lines 135 to 149, and what follows the return of \<open>mgr.Start\<close>.
\<close>

definition mgr_options :: "env \<Rightarrow> ctrl_Options" where
  "mgr_options e =
     \<lparr> Options_Scheme = ''scheme'',
       MetricsBindAddress = metricsAddr (flag_Parse (args e)),
       Port = 9443,
       HealthProbeBindAddress = probeAddr (flag_Parse (args e)),
       LeaderElection = enableLeaderElection (flag_Parse (args e)),
       LeaderElectionID = ''beb50962.opensourceways.com'' \<rparr>"

definition the_reconciler :: CodeServerReconciler where
  "the_reconciler =
     \<lparr> Client = MgrClient, Scheme = MgrScheme, Log = Logger [''controllers'', ''CodeServer''],
       Options = OptionPtr, ReqCh = ReqChan 1 \<rparr>"

definition the_watcher :: watcher_args where
  "the_watcher =
     \<lparr> w_client = MgrClient, w_log = Logger [''controllers'', ''CodeServerWatcher''],
       w_scheme = MgrScheme, w_options = OptionPtr, w_reqCh = ReqChan 1,
       w_probeCh = TickerC 5 \<rparr>"

definition setup_events :: "env \<Rightarrow> event list" where
  "setup_events e =
     [Ev_NewManager (mgr_options e) None,
      Ev_MakeChan 1 REQUEST_CHAN_SIZE,
      Ev_SetupWithManager the_reconciler (MaxConcurrency (csOption (flag_Parse (args e)))) None,
      Ev_AddHealthzCheck ''healthz'' None,
      Ev_AddReadyzCheck ''readyz'' None]"

definition launch_events :: "env \<Rightarrow> event list" where
  "launch_events e =
     [Ev_NewTicker 5 (probe_interval_of e * Second),
      Ev_Defer_TickerStop 5,
      Ev_NewCodeServerWatcher the_watcher,
      Ev_SetupSignalHandler 8,
      Ev_Go_Run the_watcher (DoneCh 8),
      Ev_LogInfo ''starting manager'',
      Ev_Start (Context 8) (Start_result e)]"

definition final_events :: "env \<Rightarrow> event list" where
  "final_events e =
     (case Start_result e of
        Some err \<Rightarrow> [Ev_LogError err ''problem running manager'', Ev_Exit 1]
      | None \<Rightarrow> [Ev_TickerStop 5])"

subsection \<open>Some runs\<close>

definition no_flags :: cmdline where
  "no_flags =
     \<lparr> metrics_bind_address = None, health_probe_bind_address = None, leader_elect = None,
       domain_name = None, vs_default_exporter = None, probe_interval = None,
       max_probe_retry = None, secret_name = None, lxd_client_secret_name = None,
       enable_user_ingress = None, max_concurrency = None \<rparr>"

definition clean_run :: env where
  "clean_run =
     \<lparr> args = no_flags, NewManager_result = None, SetupWithManager_result = None,
       AddHealthzCheck_result = None, AddReadyzCheck_result = None, Start_result = None \<rparr>"

definition overflow_run :: env where
  \<comment> \<open>\<open>-probe-interval=18446744074\<close>\<close>
  "overflow_run = clean_run\<lparr>args := no_flags\<lparr>probe_interval := Some 18446744074\<rparr>\<rparr>"

definition negative_run :: env where
  \<comment> \<open>\<open>-probe-interval=-9223372037\<close>\<close>
  "negative_run = clean_run\<lparr>args := no_flags\<lparr>probe_interval := Some (- 9223372037)\<rparr>\<rparr>"

definition zero_interval_run :: env where
  \<comment> \<open>\<open>-probe-interval=0\<close>\<close>
  "zero_interval_run = clean_run\<lparr>args := no_flags\<lparr>probe_interval := Some 0\<rparr>\<rparr>"

definition manager_fails :: env where
  "manager_fails = clean_run\<lparr>NewManager_result := Some ''no cluster''\<rparr>"

definition readyz_fails :: env where
  "readyz_fails = clean_run\<lparr>AddReadyzCheck_result := Some ''duplicate check''\<rparr>"

definition start_fails :: env where
  "start_fails = clean_run\<lparr>Start_result := Some ''cache sync timeout''\<rparr>"

definition three_workers :: env where
  \<comment> \<open>\<open>-max-concurrency=3 -leader-elect\<close>\<close>
  "three_workers =
     clean_run\<lparr>args := no_flags\<lparr>max_concurrency := Some 3, leader_elect := Some True\<rparr>\<rparr>"

section \<open>The watcher's send onto the request channel\<close>

text \<open>
  Modelled from the spec: the reconciliation request of section 3, a target resource key
  and a reason tag (\<open>controllers.CodeServerRequest\<close> is not among the sources; \<open>main\<close>
  only makes the channel that carries it).
\<close>

datatype Reason = SpecChanged | ProbeFailureThresholdReached | ProbeRecovered | ResourceDeleted

record ReconcileRequest =
  target :: string
  reason :: Reason

datatype send_outcome = Sent | Dropped | Blocked

text \<open>
  A buffered Go channel of capacity \<open>cap\<close> holding \<open>buf\<close>. The plain send \<open>ch <- x\<close>
  cannot proceed while the buffer is full; the send under \<open>select\<close> with a \<open>default\<close>
  branch always proceeds, taking the default when the buffer is full.
\<close>

definition chan_send :: "nat \<Rightarrow> 'a list \<Rightarrow> 'a \<Rightarrow> 'a list \<times> send_outcome" where
  "chan_send cap buf x = (if length buf < cap then (buf @ [x], Sent) else (buf, Blocked))"

definition chan_try_send :: "nat \<Rightarrow> 'a list \<Rightarrow> 'a \<Rightarrow> 'a list \<times> send_outcome" where
  "chan_try_send cap buf x = (if length buf < cap then (buf @ [x], Sent) else (buf, Dropped))"

text \<open>
  Modelled from the spec: the state of the Watcher (\<open>controllers.CodeServerWatcher\<close>, not
  among the sources): the per-key consecutive-failure counters, the contents of
  RequestChannel, and the log of dropped requests.
\<close>

record watcher_state =
  failures :: "string \<Rightarrow> nat option"
  queued :: "ReconcileRequest list"
  drop_log :: "ReconcileRequest list"

text \<open>
  Modelled from the spec: the Watcher's emission of one request (the body of
  \<open>controllers.CodeServerWatcher\<close>'s send, not among the sources): "Requests are pushed
  onto RequestChannel using a non-blocking send; if the channel is full, the request is
  dropped and logged rather than blocking the probe loop". The capacity is the one
  \<open>main\<close> gives the channel.
\<close>

definition emit :: "watcher_state \<Rightarrow> ReconcileRequest \<Rightarrow> watcher_state \<times> send_outcome" where
  "emit w r =
     (case chan_try_send REQUEST_CHAN_SIZE (queued w) r of
        (buf, Sent) \<Rightarrow> (w\<lparr>queued := buf\<rparr>, Sent)
      | (_, _) \<Rightarrow> (w\<lparr>drop_log := drop_log w @ [r]\<rparr>, Dropped))"

text \<open>
  Modelled from the spec: the requests of one pass of the probe loop, emitted in order;
  the outcomes are returned with the final state.
\<close>

fun emit_all :: "watcher_state \<Rightarrow> ReconcileRequest list \<Rightarrow> watcher_state \<times> send_outcome list" where
  "emit_all w [] = (w, [])"
| "emit_all w (r # rs) =
     (case emit w r of (w1, o1) \<Rightarrow> (case emit_all w1 rs of (w2, os) \<Rightarrow> (w2, o1 # os)))"


definition saturated :: watcher_state where
  "saturated =
     \<lparr> failures = (\<lambda>k. if k = ''alice'' then Some 10 else None),
       queued = replicate 10 \<lparr> target = ''bob'', reason = ProbeFailureThresholdReached \<rparr>,
       drop_log = [] \<rparr>"

section \<open>Properties of \<open>main\<close>\<close>

subsection \<open>The shape of a run\<close>

lemmas main_defs = main_def setup_controller_def add_checks_def start_watcher_and_manager_def
  NewTicker_def trace_def result_def Let_def

lemmas sel_defs = made_chans_def controller_setups_def made_tickers_def made_watchers_def
  signal_handlers_def watcher_runs_def manager_starts_def deferred_stops_def ticker_stops_def

lemmas ev_defs = setup_events_def launch_events_def final_events_def

lemmas run_defs = clean_run_def no_flags_def overflow_run_def negative_run_def
  zero_interval_run_def manager_fails_def readyz_fails_def start_fails_def three_workers_def
  flag_Parse_def flag_Var_def

lemma main_reached:
  assumes "setup_ok e" and "0 < sint (probe_interval_of e * Second)"
  shows "main e = (setup_events e @ launch_events e @ final_events e,
                   (case Start_result e of Some err \<Rightarrow> Exited 1 | None \<Rightarrow> Returned))"
  using assms
  by (simp add: main_defs setup_ok_def probe_interval_of_def ev_defs
      the_reconciler_def the_watcher_def mgr_options_def split: option.splits)

lemma main_panics:
  assumes "setup_ok e" and "sint (probe_interval_of e * Second) \<le> 0"
  shows "main e = (setup_events e @ [Ev_Panic ''non-positive interval for NewTicker''], Panicked)"
  using assms
  by (simp add: main_defs setup_ok_def probe_interval_of_def setup_events_def
      the_reconciler_def mgr_options_def)

lemma watcher_made_iff:
  "made_watchers (trace e) \<noteq> [] \<longleftrightarrow> setup_ok e \<and> 0 < sint (probe_interval_of e * Second)"
  by (simp add: main_defs sel_defs setup_ok_def probe_interval_of_def split: option.splits)

lemma ticker_made_iff:
  "made_tickers (trace e) \<noteq> [] \<longleftrightarrow> setup_ok e \<and> 0 < sint (probe_interval_of e * Second)"
  by (simp add: main_defs sel_defs setup_ok_def probe_interval_of_def split: option.splits)

lemma manager_started_iff:
  "manager_starts (trace e) \<noteq> [] \<longleftrightarrow> setup_ok e \<and> 0 < sint (probe_interval_of e * Second)"
  by (simp add: main_defs sel_defs setup_ok_def probe_interval_of_def split: option.splits)

lemma signal_handler_iff:
  "signal_handlers (trace e) \<noteq> [] \<longleftrightarrow> setup_ok e \<and> 0 < sint (probe_interval_of e * Second)"
  by (simp add: main_defs sel_defs setup_ok_def probe_interval_of_def split: option.splits)

lemma watcher_run_iff:
  "watcher_runs (trace e) \<noteq> [] \<longleftrightarrow> setup_ok e \<and> 0 < sint (probe_interval_of e * Second)"
  by (simp add: main_defs sel_defs setup_ok_def probe_interval_of_def split: option.splits)

lemma trace_reached:
  assumes "made_watchers (trace e) \<noteq> []"
  shows "trace e = setup_events e @ launch_events e @ final_events e"
proof -
  from assms have "setup_ok e" "0 < sint (probe_interval_of e * Second)"
    by (simp_all add: watcher_made_iff)
  then show ?thesis by (simp add: trace_def main_reached)
qed

lemma clean_run_reaches: "made_watchers (trace clean_run) \<noteq> []"
  by (simp add: watcher_made_iff setup_ok_def probe_interval_of_def run_defs Second_def)

lemma three_workers_reaches: "made_watchers (trace three_workers) \<noteq> []"
  by (simp add: watcher_made_iff setup_ok_def probe_interval_of_def run_defs Second_def)

lemma start_fails_reaches: "made_watchers (trace start_fails) \<noteq> []"
  by (simp add: watcher_made_iff setup_ok_def probe_interval_of_def run_defs Second_def)

subsection \<open>The request channel\<close>

text \<open>
  Claim C1. \<open>main\<close> has one \<open>make\<close> of a request channel, on line 111, reached exactly when
  the manager was created: a run that creates the manager makes exactly one request
  channel, a run that fails before makes none, and the capacity is always
  \<open>REQUEST_CHAN_SIZE\<close>, which is 10.
\<close>

theorem request_channel_made_once:
  "made_chans (trace e) =
     (if NewManager_result e = None then [(1, REQUEST_CHAN_SIZE)] else []) \<and>
   REQUEST_CHAN_SIZE = 10"
  by (simp add: main_defs sel_defs REQUEST_CHAN_SIZE_def split: option.splits)

theorem request_channel_made_once_witness:
  "made_chans (trace clean_run) = [(1, 10)] \<and> made_chans (trace manager_fails) = []"
  using request_channel_made_once [of clean_run] request_channel_made_once [of manager_fails]
  by (simp add: clean_run_def manager_fails_def)

text \<open>
  The plain send, for contrast: on a full buffer it cannot proceed, where the send of
  \<open>emit\<close> takes its default branch.
\<close>

lemma chan_send_full:
  "length buf = cap \<Longrightarrow> chan_send cap buf x = (buf, Blocked)"
  by (simp add: chan_send_def)

lemma emit_full:
  "length (queued w) = REQUEST_CHAN_SIZE \<Longrightarrow>
   emit w r = (w\<lparr>drop_log := drop_log w @ [r]\<rparr>, Dropped)"
  by (simp add: emit_def chan_try_send_def)

lemma emit_never_blocks: "snd (emit w r) \<noteq> Blocked"
  by (simp add: emit_def chan_try_send_def)

text \<open>
  Claim C2. While the request channel holds \<open>REQUEST_CHAN_SIZE\<close> (10) requests, every
  request the Watcher emits is dropped and logged: the pass over any list of requests
  completes with outcome \<open>Dropped\<close> for each (never \<open>Blocked\<close>), the dropped requests are
  appended to the log in order, and the channel contents and the failure counters are
  what they were.
\<close>

theorem full_channel_drops:
  assumes "length (queued w) = REQUEST_CHAN_SIZE"
  shows "emit_all w rs = (w\<lparr>drop_log := drop_log w @ rs\<rparr>, replicate (length rs) Dropped)"
  using assms
proof (induction rs arbitrary: w)
  case Nil
  then show ?case by simp
next
  case (Cons r rs)
  have "length (queued (w\<lparr>drop_log := drop_log w @ [r]\<rparr>)) = REQUEST_CHAN_SIZE"
    using Cons.prems by simp
  from Cons.IH [OF this] show ?case
    by (simp add: emit_full [OF Cons.prems])
qed

theorem full_channel_drops_witness:
  "length (queued saturated) = REQUEST_CHAN_SIZE \<and>
   emit_all saturated
     [\<lparr>target = ''alice'', reason = ProbeFailureThresholdReached\<rparr>,
      \<lparr>target = ''carol'', reason = ProbeRecovered\<rparr>] =
   (saturated
      \<lparr>drop_log := [\<lparr>target = ''alice'', reason = ProbeFailureThresholdReached\<rparr>,
                    \<lparr>target = ''carol'', reason = ProbeRecovered\<rparr>]\<rparr>,
    [Dropped, Dropped])"
proof -
  have full: "length (queued saturated) = REQUEST_CHAN_SIZE"
    by (simp add: saturated_def REQUEST_CHAN_SIZE_def)
  have "drop_log saturated = []" by (simp add: saturated_def)
  with full full_channel_drops [OF full,
      of "[\<lparr>target = ''alice'', reason = ProbeFailureThresholdReached\<rparr>,
           \<lparr>target = ''carol'', reason = ProbeRecovered\<rparr>]"]
  show ?thesis by simp
qed

subsection \<open>The reconciler's concurrency\<close>

text \<open>
  Claim C3. The concurrency bound that \<open>SetupWithManager\<close> receives is
  \<open>csOption.MaxConcurrency\<close>: the value of the \<open>max-concurrency\<close> flag, 10 when the flag
  is absent. The call is made once, in every run that creates the manager.
\<close>

theorem reconciler_gets_max_concurrency:
  "map snd (controller_setups (trace e)) =
     (if NewManager_result e = None
      then [MaxConcurrency (csOption (flag_Parse (args e)))] else []) \<and>
   MaxConcurrency (csOption (flag_Parse (args e))) =
     (case max_concurrency (args e) of None \<Rightarrow> 10 | Some n \<Rightarrow> n)"
  by (simp add: main_defs sel_defs flag_Parse_def flag_Var_def split: option.splits)

theorem reconciler_gets_max_concurrency_witness:
  "map snd (controller_setups (trace clean_run)) = [10] \<and>
   map snd (controller_setups (trace three_workers)) = [3]"
  using reconciler_gets_max_concurrency [of clean_run]
    reconciler_gets_max_concurrency [of three_workers]
  by (simp add: clean_run_def three_workers_def no_flags_def)

subsection \<open>The wiring of the reconciler and the watcher\<close>







subsection \<open>The stop signal\<close>

text \<open>
  Claim C5. \<open>ctrl.SetupSignalHandler\<close> is called at most once in a run, and exactly once
  in a run that builds the watcher; there, the \<open>Done\<close> channel of the context it returns
  is the argument of the watcher's \<open>Run\<close>, and the same context is the argument of the
  manager's \<open>Start\<close>. A run that does not build the watcher sets up no handler, launches
  no \<open>Run\<close> and starts no manager.
\<close>

theorem single_stop_context:
  "(if made_watchers (trace e) = []
    then signal_handlers (trace e) = [] \<and> watcher_runs (trace e) = [] \<and>
         manager_starts (trace e) = []
    else \<exists>ctx w. signal_handlers (trace e) = [ctx] \<and> made_watchers (trace e) = [w] \<and>
           watcher_runs (trace e) = [(w, DoneCh ctx)] \<and>
           manager_starts (trace e) = [Context ctx])"
proof (cases "made_watchers (trace e) = []")
  case True
  then have "\<not> (setup_ok e \<and> 0 < sint (probe_interval_of e * Second))"
    using watcher_made_iff [of e] by simp
  then have "signal_handlers (trace e) = []" "watcher_runs (trace e) = []"
    "manager_starts (trace e) = []"
    using signal_handler_iff [of e] watcher_run_iff [of e] manager_started_iff [of e]
    by blast+
  with True show ?thesis by simp
next
  case False
  have "\<exists>ctx w. signal_handlers (trace e) = [ctx] \<and> made_watchers (trace e) = [w] \<and>
           watcher_runs (trace e) = [(w, DoneCh ctx)] \<and>
           manager_starts (trace e) = [Context ctx]"
    unfolding trace_reached [OF False]
    by (cases "Start_result e") (simp_all add: ev_defs sel_defs)
  with False show ?thesis by simp
qed

theorem single_stop_context_witness:
  "(\<exists>ctx w. signal_handlers (trace clean_run) = [ctx] \<and>
      watcher_runs (trace clean_run) = [(w, DoneCh ctx)] \<and>
      manager_starts (trace clean_run) = [Context ctx]) \<and>
   signal_handlers (trace manager_fails) = []"
proof -
  have "made_watchers (trace manager_fails) = []"
    using watcher_made_iff [of manager_fails] by (simp add: setup_ok_def run_defs)
  with single_stop_context [of manager_fails] single_stop_context [of clean_run]
    clean_run_reaches
  show ?thesis by auto
qed

subsection \<open>The probe ticker\<close>

text \<open>
  \<open>time.Duration(csOption.ProbeInterval) * time.Second\<close> is a 64-bit product. It is the
  flag value in seconds exactly when that fits, which it does for every flag value of
  magnitude at most 9223372036.
\<close>

lemma sint_mul_Second:
  fixes p :: "64 word"
  assumes "- 9223372036 \<le> sint p" and "sint p \<le> 9223372036"
  shows "sint (p * Second) = sint p * 1000000000"
proof -
  have "sint (p * Second) = signed_take_bit 63 (sint p * sint Second)"
    by (simp add: sint_word_ariths)
  also have "sint Second = 1000000000"
    by (simp add: Second_def)
  also have "signed_take_bit 63 (sint p * 1000000000) = sint p * 1000000000"
    using assms by (intro signed_take_bit_int_eq_self) auto
  finally show ?thesis .
qed

lemma clean_run_setup_ok: "setup_ok clean_run"
  by (simp add: setup_ok_def run_defs)

lemma clean_run_interval: "probe_interval_of clean_run = 20"
  by (simp add: probe_interval_of_def run_defs)

text \<open>
  Claim C6, as amended. In a run that reaches the ticker construction with a
  \<open>probe-interval\<close> from 1 to 9223372036, \<open>main\<close> constructs one ticker, whose period in
  nanoseconds is the flag value times 10^9, and builds one watcher, which is handed the
  ticker's receive channel and not the ticker.
\<close>

theorem ticker_period_is_probe_interval:
  assumes "setup_ok e" and "1 \<le> sint (probe_interval_of e)"
    and "sint (probe_interval_of e) \<le> 9223372036"
  shows "\<exists>tk d w. made_tickers (trace e) = [(tk, d)] \<and>
           sint d = sint (probe_interval_of e) * 1000000000 \<and>
           made_watchers (trace e) = [w] \<and>
           filter (\<lambda>h. h = TickerObj tk \<or> h = TickerC tk) (watcher_handles w) = [TickerC tk]"
proof -
  have m: "sint (probe_interval_of e * Second) = sint (probe_interval_of e) * 1000000000"
    using assms by (intro sint_mul_Second) auto
  then have pos: "0 < sint (probe_interval_of e * Second)"
    using assms by simp
  show ?thesis
    unfolding trace_def main_reached [OF assms(1) pos]
    by (cases "Start_result e")
       (simp_all add: ev_defs sel_defs watcher_handles_def the_watcher_def m)
qed

theorem ticker_period_is_probe_interval_witness:
  "setup_ok clean_run \<and> sint (probe_interval_of clean_run) = 20 \<and>
   (\<exists>tk d w. made_tickers (trace clean_run) = [(tk, d)] \<and> sint d = 20000000000 \<and>
      made_watchers (trace clean_run) = [w] \<and>
      filter (\<lambda>h. h = TickerObj tk \<or> h = TickerC tk) (watcher_handles w) = [TickerC tk])"
proof -
  have p: "sint (probe_interval_of clean_run) = 20"
    by (simp add: clean_run_interval)
  have "1 \<le> sint (probe_interval_of clean_run)"
    and "sint (probe_interval_of clean_run) \<le> 9223372036"
    by (simp_all add: p)
  from ticker_period_is_probe_interval [OF clean_run_setup_ok this] clean_run_setup_ok p
  show ?thesis by simp
qed

text \<open>
  With \<open>-probe-interval=18446744074\<close> the product wraps: the run constructs a ticker of
  period 290448384 ns, about 0.29 s, not 18446744074 s. With \<open>-probe-interval=0\<close> the
  run constructs no ticker at all.
\<close>

theorem ticker_period_overflow:
  "setup_ok overflow_run \<and> sint (probe_interval_of overflow_run) = 18446744074 \<and>
   map (sint \<circ> snd) (made_tickers (trace overflow_run)) = [290448384] \<and>
   setup_ok zero_interval_run \<and> sint (probe_interval_of zero_interval_run) = 0 \<and>
   made_tickers (trace zero_interval_run) = []"
proof -
  have s: "setup_ok overflow_run"
    by (simp add: setup_ok_def run_defs)
  have p: "probe_interval_of overflow_run = 18446744074"
    by (simp add: probe_interval_of_def run_defs)
  have d: "probe_interval_of overflow_run * Second = 290448384"
    by (simp add: p Second_def)
  have pos: "0 < sint (probe_interval_of overflow_run * Second)"
    by (simp add: d)
  have st: "Start_result overflow_run = None"
    by (simp add: run_defs)
  have t: "made_tickers (trace overflow_run) = [(5, 290448384)]"
    unfolding trace_def main_reached [OF s pos]
    by (simp add: ev_defs sel_defs d st)
  have s0: "setup_ok zero_interval_run"
    by (simp add: setup_ok_def run_defs)
  have p0: "probe_interval_of zero_interval_run = 0"
    by (simp add: probe_interval_of_def run_defs)
  have t0: "made_tickers (trace zero_interval_run) = []"
    using ticker_made_iff [of zero_interval_run] by (simp add: p0)
  from s t s0 t0 show ?thesis
    by (simp add: p p0)
qed

text \<open>
  Claim C7. In a run that constructs the ticker, \<open>main\<close> constructs one, defers the
  \<open>Stop\<close> of that ticker, and builds one watcher, whose probe channel is the ticker's
  receive channel and none of whose arguments can stop a ticker. The ticker is stopped
  by the deferred call of \<open>main\<close>, when \<open>main\<close> returns, and nowhere else in the run.
\<close>

theorem ticker_owned_by_main:
  assumes "made_tickers (trace e) \<noteq> []"
  shows "\<exists>tk d w. made_tickers (trace e) = [(tk, d)] \<and> deferred_stops (trace e) = [tk] \<and>
           made_watchers (trace e) = [w] \<and> w_probeCh w = TickerC tk \<and>
           filter can_stop_ticker (watcher_handles w) = [] \<and>
           ticker_stops (trace e) = (if result e = Returned then [tk] else [])"
proof -
  from assms have r: "setup_ok e" "0 < sint (probe_interval_of e * Second)"
    by (simp_all add: ticker_made_iff)
  show ?thesis
    unfolding trace_def result_def main_reached [OF r]
    by (cases "Start_result e")
       (simp_all add: ev_defs sel_defs watcher_handles_def the_watcher_def)
qed

theorem ticker_owned_by_main_witness:
  "made_tickers (trace clean_run) \<noteq> [] \<and>
   (\<exists>tk d w. made_tickers (trace clean_run) = [(tk, d)] \<and>
      deferred_stops (trace clean_run) = [tk] \<and>
      made_watchers (trace clean_run) = [w] \<and> w_probeCh w = TickerC tk \<and>
      filter can_stop_ticker (watcher_handles w) = [] \<and>
      ticker_stops (trace clean_run) = (if result clean_run = Returned then [tk] else []))"
proof -
  have t: "made_tickers (trace clean_run) \<noteq> []"
    using clean_run_reaches by (simp add: ticker_made_iff watcher_made_iff)
  from ticker_owned_by_main [OF t] t show ?thesis by blast
qed

text \<open>
  Claim C8, as amended. \<open>main\<close> hands the ticker constructor the unvalidated product of
  the \<open>probe-interval\<close> flag value and \<open>time.Second\<close>. In a run that reaches the ticker
  construction with a flag value from -9223372036 to 0, the construction panics: no
  ticker and no watcher is built, and the manager is not started. A run with a flag
  value of magnitude at most 9223372036 builds the watcher or starts the manager only
  when the flag value is at least 1.
\<close>

theorem nonpositive_interval_panics:
  "(\<forall>(tk, d) \<in> set (made_tickers (trace e)). d = probe_interval_of e * Second) \<and>
   (setup_ok e \<and> - 9223372036 \<le> sint (probe_interval_of e) \<and> sint (probe_interval_of e) \<le> 0 \<longrightarrow>
      result e = Panicked \<and> made_tickers (trace e) = [] \<and> made_watchers (trace e) = [] \<and>
      manager_starts (trace e) = []) \<and>
   ((made_watchers (trace e) \<noteq> [] \<or> manager_starts (trace e) \<noteq> []) \<and>
      - 9223372036 \<le> sint (probe_interval_of e) \<and> sint (probe_interval_of e) \<le> 9223372036 \<longrightarrow>
      1 \<le> sint (probe_interval_of e))"
proof (intro conjI impI)
  show "\<forall>(tk, d) \<in> set (made_tickers (trace e)). d = probe_interval_of e * Second"
  proof (cases "made_tickers (trace e) = []")
    case True
    then show ?thesis by simp
  next
    case False
    then have r: "setup_ok e" "0 < sint (probe_interval_of e * Second)"
      by (simp_all add: ticker_made_iff)
    show ?thesis
      unfolding trace_def main_reached [OF r]
      by (cases "Start_result e") (simp_all add: ev_defs sel_defs)
  qed
next
  assume a: "setup_ok e \<and> - 9223372036 \<le> sint (probe_interval_of e) \<and>
    sint (probe_interval_of e) \<le> 0"
  then have "sint (probe_interval_of e * Second) = sint (probe_interval_of e) * 1000000000"
    by (intro sint_mul_Second) auto
  with a have np: "sint (probe_interval_of e * Second) \<le> 0"
    by simp
  from a have s: "setup_ok e"
    by simp
  show "result e = Panicked"
    by (simp add: result_def main_panics [OF s np])
  from np show "made_tickers (trace e) = []"
    using ticker_made_iff [of e] by simp
  from np show "made_watchers (trace e) = []"
    using watcher_made_iff [of e] by simp
  from np show "manager_starts (trace e) = []"
    using manager_started_iff [of e] by simp
next
  assume b: "(made_watchers (trace e) \<noteq> [] \<or> manager_starts (trace e) \<noteq> []) \<and>
    - 9223372036 \<le> sint (probe_interval_of e) \<and> sint (probe_interval_of e) \<le> 9223372036"
  then have pos: "0 < sint (probe_interval_of e * Second)"
    by (auto simp add: watcher_made_iff manager_started_iff)
  from b have "sint (probe_interval_of e * Second) = sint (probe_interval_of e) * 1000000000"
    by (intro sint_mul_Second) auto
  with pos show "1 \<le> sint (probe_interval_of e)"
    by simp
qed

theorem nonpositive_interval_panics_witness:
  "setup_ok zero_interval_run \<and> sint (probe_interval_of zero_interval_run) = 0 \<and>
   result zero_interval_run = Panicked \<and> made_watchers (trace zero_interval_run) = [] \<and>
   manager_starts (trace zero_interval_run) = [] \<and>
   made_watchers (trace clean_run) \<noteq> [] \<and> 1 \<le> sint (probe_interval_of clean_run) \<and>
   made_tickers (trace clean_run) = [(5, 20 * Second)]"
proof -
  have s0: "setup_ok zero_interval_run"
    by (simp add: setup_ok_def run_defs)
  have p0: "probe_interval_of zero_interval_run = 0"
    by (simp add: probe_interval_of_def run_defs)
  have z: "result zero_interval_run = Panicked \<and> made_watchers (trace zero_interval_run) = [] \<and>
    manager_starts (trace zero_interval_run) = []"
    using nonpositive_interval_panics [of zero_interval_run] s0 by (simp add: p0)
  have c: "1 \<le> sint (probe_interval_of clean_run)"
    using nonpositive_interval_panics [of clean_run] clean_run_reaches
    by (simp add: clean_run_interval)
  have "\<forall>(tk, d) \<in> set (made_tickers (trace clean_run)). d = 20 * Second"
    using nonpositive_interval_panics [of clean_run] by (simp add: clean_run_interval)
  moreover have "made_tickers (trace clean_run) = [(5, probe_interval_of clean_run * Second)]"
    unfolding trace_reached [OF clean_run_reaches]
    by (simp add: ev_defs sel_defs run_defs)
  ultimately have t: "made_tickers (trace clean_run) = [(5, 20 * Second)]"
    by (simp add: clean_run_interval)
  from s0 z c t clean_run_reaches show ?thesis
    by (simp add: p0)
qed

text \<open>
  With \<open>-probe-interval=-9223372037\<close> the product wraps to 9223372036709551616 ns, which
  is positive: the ticker is constructed, the watcher is built and the manager is
  started, with a flag value below 1.
\<close>

theorem negative_interval_reaches_watcher:
  "sint (probe_interval_of negative_run) = - 9223372037 \<and> result negative_run = Returned \<and>
   length (made_tickers (trace negative_run)) = 1 \<and>
   length (made_watchers (trace negative_run)) = 1 \<and>
   length (manager_starts (trace negative_run)) = 1"
proof -
  have s: "setup_ok negative_run"
    by (simp add: setup_ok_def run_defs)
  have p: "probe_interval_of negative_run = - 9223372037"
    by (simp add: probe_interval_of_def run_defs)
  have d: "probe_interval_of negative_run * Second = 9223372036709551616"
    by (simp add: p Second_def)
  have pos: "0 < sint (probe_interval_of negative_run * Second)"
    by (simp add: d)
  have st: "Start_result negative_run = None"
    by (simp add: run_defs)
  show ?thesis
    unfolding trace_def result_def main_reached [OF s pos]
    by (simp add: ev_defs sel_defs st p)
qed

subsection \<open>Startup failures\<close>

text \<open>
  Claim C9. If any of the five fallible calls of \<open>main\<close> (creating the manager,
  registering the controller, adding the healthz check, adding the readyz check, starting
  the manager) returns an error in a run, then the run ends with exit status 1, and its
  last three events are that call, the logging of its error, and \<open>os.Exit(1)\<close>: nothing
  else happens after the failure.
\<close>

theorem startup_failure_exits_1:
  assumes "ev \<in> set (trace e)" and "returned_error ev = Some err"
  shows "result e = Exited 1 \<and>
    (\<exists>msg. drop (length (trace e) - 3) (trace e) = [ev, Ev_LogError err msg, Ev_Exit 1])"
  using assms
  by (auto simp add: main_defs split: option.splits if_splits)

theorem startup_failure_exits_1_witness:
  "result manager_fails = Exited 1 \<and>
   trace manager_fails =
     [Ev_NewManager (mgr_options manager_fails) (Some ''no cluster''),
      Ev_LogError ''no cluster'' ''unable to start manager'', Ev_Exit 1] \<and>
   result readyz_fails = Exited 1 \<and>
   drop (length (trace readyz_fails) - 3) (trace readyz_fails) =
     [Ev_AddReadyzCheck ''readyz'' (Some ''duplicate check''),
      Ev_LogError ''duplicate check'' ''unable to set up ready check'', Ev_Exit 1] \<and>
   result start_fails = Exited 1 \<and>
   drop (length (trace start_fails) - 3) (trace start_fails) =
     [Ev_Start (Context 8) (Some ''cache sync timeout''),
      Ev_LogError ''cache sync timeout'' ''problem running manager'', Ev_Exit 1]"
proof -
  have m: "trace manager_fails =
     [Ev_NewManager (mgr_options manager_fails) (Some ''no cluster''),
      Ev_LogError ''no cluster'' ''unable to start manager'', Ev_Exit 1]"
    by (simp add: main_defs mgr_options_def manager_fails_def)
  then have "Ev_NewManager (mgr_options manager_fails) (Some ''no cluster'')
      \<in> set (trace manager_fails)"
    by simp
  from startup_failure_exits_1 [OF this] have rm: "result manager_fails = Exited 1"
    by simp
  have r: "drop (length (trace readyz_fails) - 3) (trace readyz_fails) =
     [Ev_AddReadyzCheck ''readyz'' (Some ''duplicate check''),
      Ev_LogError ''duplicate check'' ''unable to set up ready check'', Ev_Exit 1]"
    by (simp add: main_defs readyz_fails_def clean_run_def)
  have "Ev_AddReadyzCheck ''readyz'' (Some ''duplicate check'') \<in> set (trace readyz_fails)"
    by (simp add: main_defs readyz_fails_def clean_run_def)
  from startup_failure_exits_1 [OF this] have rr: "result readyz_fails = Exited 1"
    by simp
  have t: "trace start_fails =
      setup_events start_fails @ launch_events start_fails @ final_events start_fails"
    by (rule trace_reached [OF start_fails_reaches])
  have st: "Start_result start_fails = Some ''cache sync timeout''"
    by (simp add: start_fails_def)
  have "Ev_Start (Context 8) (Some ''cache sync timeout'') \<in> set (trace start_fails)"
    by (simp add: t ev_defs st)
  from startup_failure_exits_1 [OF this] have rs: "result start_fails = Exited 1"
    by simp
  have s: "drop (length (trace start_fails) - 3) (trace start_fails) =
     [Ev_Start (Context 8) (Some ''cache sync timeout''),
      Ev_LogError ''cache sync timeout'' ''problem running manager'', Ev_Exit 1]"
    by (simp add: t ev_defs st)
  from m rm r rr s rs show ?thesis
    by simp
qed

subsection \<open>The launch of the watcher\<close>

lemma watcher_runs_leader_elect:
  "watcher_runs (trace (e\<lparr>args := (args e)\<lparr>leader_elect := b\<rparr>\<rparr>)) = watcher_runs (trace e)"
proof -
  let ?e = "e\<lparr>args := (args e)\<lparr>leader_elect := b\<rparr>\<rparr>"
  have same: "setup_ok ?e = setup_ok e" "probe_interval_of ?e = probe_interval_of e"
    by (simp_all add: setup_ok_def probe_interval_of_def flag_Parse_def)
  show ?thesis
  proof (cases "setup_ok e \<and> 0 < sint (probe_interval_of e * Second)")
    case True
    then have r: "setup_ok e" "0 < sint (probe_interval_of e * Second)"
      by simp_all
    then have r': "setup_ok ?e" "0 < sint (probe_interval_of ?e * Second)"
      by (simp_all add: same)
    show ?thesis
      unfolding trace_def main_reached [OF r] main_reached [OF r']
      by (simp add: ev_defs sel_defs)
  next
    case False
    then have "watcher_runs (trace e) = []"
      using watcher_run_iff [of e] by blast
    moreover from False have "watcher_runs (trace ?e) = []"
      using watcher_run_iff [of ?e] by (simp only: same) blast
    ultimately show ?thesis
      by simp
  qed
qed

text \<open>
  Claim C10. In a run that builds the watcher, \<open>go codeServerWatcher.Run\<close> is executed
  on that watcher before \<open>mgr.Start\<close> is called: no start of the manager precedes the
  launch and one follows it. Whether \<open>-leader-elect\<close> is given, and with what value,
  changes nothing about the launch: leader election is an option of the manager, whose
  start comes after.
\<close>

theorem watcher_launched_before_start:
  assumes "made_watchers (trace e) \<noteq> []"
  shows "(\<exists>pre w stop post. trace e = pre @ Ev_Go_Run w stop # post \<and>
            made_watchers pre = [w] \<and> manager_starts pre = [] \<and>
            length (manager_starts post) = 1) \<and>
         watcher_runs (trace (e\<lparr>args := (args e)\<lparr>leader_elect := b\<rparr>\<rparr>)) =
           watcher_runs (trace e)"
proof -
  let ?pre = "setup_events e @ take 4 (launch_events e)"
  let ?post = "drop 5 (launch_events e) @ final_events e"
  have "trace e = ?pre @ Ev_Go_Run the_watcher (DoneCh 8) # ?post"
    unfolding trace_reached [OF assms] by (simp add: launch_events_def)
  moreover have "made_watchers ?pre = [the_watcher]" "manager_starts ?pre = []"
    by (simp_all add: ev_defs sel_defs)
  moreover have "length (manager_starts ?post) = 1"
    by (cases "Start_result e") (simp_all add: ev_defs sel_defs)
  ultimately have "\<exists>pre w stop post. trace e = pre @ Ev_Go_Run w stop # post \<and>
            made_watchers pre = [w] \<and> manager_starts pre = [] \<and>
            length (manager_starts post) = 1"
    by blast
  then show ?thesis
    by (simp add: watcher_runs_leader_elect)
qed

theorem watcher_launched_before_start_witness:
  "made_watchers (trace three_workers) \<noteq> [] \<and>
   enableLeaderElection (flag_Parse (args three_workers)) \<and>
   (\<exists>pre w stop post. trace three_workers = pre @ Ev_Go_Run w stop # post \<and>
      made_watchers pre = [w] \<and> manager_starts pre = [] \<and>
      length (manager_starts post) = 1) \<and>
   watcher_runs (trace (three_workers\<lparr>args := (args three_workers)\<lparr>leader_elect := Some False\<rparr>\<rparr>)) =
     watcher_runs (trace three_workers)"
proof -
  have "enableLeaderElection (flag_Parse (args three_workers))"
    by (simp add: run_defs)
  with three_workers_reaches
    watcher_launched_before_start [OF three_workers_reaches, of "Some False"]
  show ?thesis by blast
qed

end
